theory Spec2Isabelle
  imports Complex_Main
begin

section \<open>JavaScript values\<close>

text \<open>
  The numbers of \<open>src/service.js\<close> are JavaScript numbers. A finite number is modelled by
  a rational, so that arithmetic is exact; \<open>NaN\<close> (what \<open>Number(k[4])\<close> gives on a
  malformed bar), \<open>undefined\<close> (what \<open>.at(-2)\<close> gives out of range, and what an absent
  field reads as) and \<open>null\<close> (the initial snapshot) are values of their own.
\<close>

datatype jsval = Undefined | Null | NaN | Num rat

text \<open>ECMAScript \<open>ToNumber\<close>; the result \<open>None\<close> stands for \<open>NaN\<close>.\<close>

fun ToNumber :: "jsval \<Rightarrow> rat option" where
  "ToNumber Undefined = None"
| "ToNumber Null = Some 0"
| "ToNumber NaN = None"
| "ToNumber (Num r) = Some r"

text \<open>\<open>a < b\<close> and \<open>a > b\<close> on numbers: false as soon as one side is \<open>NaN\<close>.\<close>

definition js_lt :: "jsval \<Rightarrow> jsval \<Rightarrow> bool" where
  "js_lt a b = (case ToNumber a of None \<Rightarrow> False
                | Some x \<Rightarrow> (case ToNumber b of None \<Rightarrow> False | Some y \<Rightarrow> x < y))"

definition js_gt :: "jsval \<Rightarrow> jsval \<Rightarrow> bool" where
  "js_gt a b = js_lt b a"

definition js_arith :: "(rat \<Rightarrow> rat \<Rightarrow> rat) \<Rightarrow> jsval \<Rightarrow> jsval \<Rightarrow> jsval" where
  "js_arith f a b = (case ToNumber a of None \<Rightarrow> NaN
                     | Some x \<Rightarrow> (case ToNumber b of None \<Rightarrow> NaN | Some y \<Rightarrow> Num (f x y)))"

definition js_add :: "jsval \<Rightarrow> jsval \<Rightarrow> jsval" where
  "js_add = js_arith (+)"

definition js_sub :: "jsval \<Rightarrow> jsval \<Rightarrow> jsval" where
  "js_sub = js_arith (-)"

definition js_mul :: "jsval \<Rightarrow> jsval \<Rightarrow> jsval" where
  "js_mul = js_arith (*)"

text \<open>Truthiness of a value that is a number or absent: \<open>0\<close>, \<open>NaN\<close>, \<open>null\<close> and
  \<open>undefined\<close> are falsy. \<open>a || b\<close> is \<open>a\<close> when \<open>a\<close> is truthy and \<open>b\<close> otherwise.\<close>

fun truthy :: "jsval \<Rightarrow> bool" where
  "truthy (Num r) = (r \<noteq> 0)"
| "truthy _ = False"

definition js_or :: "jsval \<Rightarrow> jsval \<Rightarrow> jsval" where
  "js_or a b = (if truthy a then a else b)"

text \<open>\<open>Array.prototype.at\<close>: a negative index counts from the end, and an index out of
  range reads \<open>undefined\<close>.\<close>

definition js_at :: "jsval list \<Rightarrow> int \<Rightarrow> jsval" where
  "js_at xs i =
     (let n = int (length xs); k = (if i < 0 then n + i else i)
      in if 0 \<le> k \<and> k < n then xs ! nat k else Undefined)"

section \<open>Data model\<close>

datatype signal = GOLDEN | DEATH | NONE

datatype side = LONG | SHORT

datatype status = OPEN | CLOSED

text \<open>The \<open>_id\<close> of a position: the string \<open>"dryrun"\<close> or an identifier assigned by the
  store.\<close>

datatype ident = Dryrun | ObjectId nat

text \<open>A position document. The exit fields are absent (\<open>undefined\<close>) until the close.\<close>

record position =
  doc_id :: ident
  symbol :: string
  status :: status
  qty :: jsval
  positionType :: side
  entryPrice :: jsval
  entryTime :: nat
  entryEMAfast :: jsval
  entryEMAslow :: jsval
  createdAt :: nat
  updatedAt :: nat
  exitPrice :: jsval
  exitTime :: "nat option"
  exitEMAfast :: jsval
  exitEMAslow :: jsval
  profitLoss :: jsval

text \<open>The object \<open>cached\<close> (lines 89-98).\<close>

record snapshot =
  price :: jsval
  emaEntryFast :: jsval
  emaEntrySlow :: jsval
  emaExitFast :: jsval
  emaExitSlow :: jsval
  entrySignal :: signal
  exitSignal :: signal
  lastTickAt :: "nat option"

text \<open>The configuration constants of lines 32-50 that the strategy reads.\<close>

record config =
  SYMBOL :: string
  EMA_ENTRY_FAST :: nat
  EMA_ENTRY_SLOW :: nat
  EMA_EXIT_FAST :: nat
  EMA_EXIT_SLOW :: nat
  DRY_RUN :: bool

datatype error = FetchError | TypeError

text \<open>What the program writes to the console: one constructor per \<open>console.log\<close>,
  \<open>console.warn\<close> and \<open>console.error\<close> of the trade operations and of \<open>tick\<close>.\<close>

datatype logmsg =
    LogOpen side bool jsval ident
  | LogClose side bool jsval jsval ident
  | WarnNoOpenPosition
  | WarnNotEnoughCandles
  | LogTick snapshot "position option"
  | ErrorTick error

text \<open>The module-level variables \<open>isTickRunning\<close>, \<open>openPosition\<close> and \<open>cached\<close>
  (lines 87-98), the collection \<open>positionsCol\<close> with its documents in insertion order,
  and the console output.\<close>

record state =
  isTickRunning :: bool
  openPosition :: "position option"
  cached :: snapshot
  positionsCol :: "position list"
  console :: "logmsg list"

text \<open>What the outside world hands to one invocation of \<open>tick\<close>: the outcome of the
  request of \<open>fetchCloses\<close> (a transport error or timeout, or the closing prices, oldest
  first) and the value of \<open>new Date()\<close>.\<close>

record env =
  response :: "error + jsval list"
  clock :: nat

section \<open>The signal detector (lines 103-107)\<close>

definition detectCross :: "jsval \<Rightarrow> jsval \<Rightarrow> jsval \<Rightarrow> jsval \<Rightarrow> signal" where
  "detectCross prevFast prevSlow fast slow =
     (if js_lt prevFast prevSlow \<and> js_gt fast slow then GOLDEN
      else if js_gt prevFast prevSlow \<and> js_lt fast slow then DEATH
      else NONE)"

section \<open>The position store\<close>

text \<open>
  Modelled from the spec: the Position Store is the MongoDB collection behind
  \<open>positionsCol\<close>, whose driver is not part of the repository. Section 6 of the
  specification gives its contract: a collection keyed by a generated identifier, queryable
  by instrument and status in descending time order, with insert-one and a conditional
  update-one. The generated identifier is one that no document of the collection carries.
\<close>

definition fresh_id :: "position list \<Rightarrow> ident" where
  "fresh_id col =
     ObjectId (Suc (foldr (\<lambda>d m. case doc_id d of ObjectId n \<Rightarrow> max n m | Dryrun \<Rightarrow> m) col 0))"

definition insertOne :: "position \<Rightarrow> position list \<Rightarrow> ident \<times> position list" where
  "insertOne doc col = (let i = fresh_id col in (i, col @ [doc\<lparr>doc_id := i\<rparr>]))"

text \<open>\<open>findOneAndUpdate(filter, update, {returnDocument: "after"})\<close>: the first document
  that matches the filter is updated and returned; without a match nothing is written and
  the result is \<open>null\<close>.\<close>

fun findOneAndUpdate ::
  "(position \<Rightarrow> bool) \<Rightarrow> (position \<Rightarrow> position) \<Rightarrow> position list
     \<Rightarrow> position option \<times> position list" where
  "findOneAndUpdate flt upd [] = (None, [])"
| "findOneAndUpdate flt upd (d # ds) =
     (if flt d then (Some (upd d), upd d # ds)
      else (case findOneAndUpdate flt upd ds of (r, ds') \<Rightarrow> (r, d # ds')))"

text \<open>\<open>find(filter).sort({createdAt: -1}).limit(1)\<close>: the matching document with the
  greatest \<open>createdAt\<close>, if there is one.\<close>

definition find_latest :: "(position \<Rightarrow> bool) \<Rightarrow> position list \<Rightarrow> position option" where
  "find_latest flt col =
     foldl (\<lambda>best d. case best of None \<Rightarrow> Some d
                     | Some b \<Rightarrow> if createdAt b < createdAt d then Some d else Some b)
           None (filter flt col)"

section \<open>Startup reconciliation (lines 109-117)\<close>

definition restoreOpenPosition :: "config \<Rightarrow> state \<Rightarrow> state" where
  "restoreOpenPosition cfg s =
     (if DRY_RUN cfg then s
      else s\<lparr>openPosition :=
               find_latest (\<lambda>d. symbol d = SYMBOL cfg \<and> status d = OPEN) (positionsCol s)\<rparr>)"

section \<open>Trade operations (lines 128-192)\<close>

definition openTrade ::
  "config \<Rightarrow> nat \<Rightarrow> side \<Rightarrow> jsval \<Rightarrow> jsval \<Rightarrow> jsval \<Rightarrow> state \<Rightarrow> state" where
  "openTrade cfg now pt pr emaFast emaSlow s =
     (let base = \<lparr>doc_id = Dryrun, symbol = SYMBOL cfg, status = OPEN, qty = Num 1,
                   positionType = pt, entryPrice = pr, entryTime = now,
                   entryEMAfast = emaFast, entryEMAslow = emaSlow,
                   createdAt = now, updatedAt = now,
                   exitPrice = Undefined, exitTime = None, exitEMAfast = Undefined,
                   exitEMAslow = Undefined, profitLoss = Undefined\<rparr>
      in if DRY_RUN cfg
         then s\<lparr>openPosition := Some (base\<lparr>doc_id := Dryrun\<rparr>),
                console := console s @ [LogOpen pt True pr Dryrun]\<rparr>
         else (case insertOne base (positionsCol s) of
                 (insertedId, col) \<Rightarrow>
                   s\<lparr>positionsCol := col,
                     openPosition := Some (base\<lparr>doc_id := insertedId\<rparr>),
                     console := console s @ [LogOpen pt False pr insertedId]\<rparr>))"

text \<open>The profit or loss of lines 154-158.\<close>

definition pnl_of :: "position \<Rightarrow> jsval \<Rightarrow> jsval" where
  "pnl_of p pr =
     (let q = js_or (qty p) (Num 1);
          isLong = (positionType p = LONG)
      in js_mul (if isLong then js_sub pr (entryPrice p) else js_sub (entryPrice p) pr) q)"

text \<open>The \<open>$set\<close> of lines 171-179.\<close>

definition close_update :: "nat \<Rightarrow> jsval \<Rightarrow> jsval \<Rightarrow> jsval \<Rightarrow> jsval \<Rightarrow> position \<Rightarrow> position" where
  "close_update now pr emaFast emaSlow pnl d =
     d\<lparr>status := CLOSED, exitPrice := pr, exitTime := Some now, exitEMAfast := emaFast,
       exitEMAslow := emaSlow, profitLoss := pnl, updatedAt := now\<rparr>"

definition closeTrade :: "config \<Rightarrow> nat \<Rightarrow> jsval \<Rightarrow> jsval \<Rightarrow> jsval \<Rightarrow> state \<Rightarrow> state" where
  "closeTrade cfg now pr emaFast emaSlow s =
     (case openPosition s of
        None \<Rightarrow> s
      | Some p \<Rightarrow>
          (let pnl = pnl_of p pr
           in if DRY_RUN cfg
              then s\<lparr>console := console s @ [LogClose (positionType p) True pr pnl (doc_id p)],
                     openPosition := None\<rparr>
              else (case findOneAndUpdate (\<lambda>d. doc_id d = doc_id p \<and> status d = OPEN)
                           (close_update now pr emaFast emaSlow pnl) (positionsCol s) of
                      (res, col) \<Rightarrow>
                        s\<lparr>positionsCol := col,
                          console := console s @
                            [case res of
                               Some v \<Rightarrow> LogClose (positionType v) False pr pnl (doc_id v)
                             | None \<Rightarrow> WarnNoOpenPosition],
                          openPosition := None\<rparr>)))"

section \<open>The strategy tick (lines 195-270)\<close>

text \<open>\<open>fetchCloses\<close> (lines 119-125): the request either fails or gives the closing
  prices; how many bars come back is the provider's decision.\<close>

definition fetchCloses :: "env \<Rightarrow> error + jsval list" where
  "fetchCloses e = response e"

text \<open>Lines 205-237: the four moving-average series, their last two elements, the two
  signals and the new snapshot. The moving-average routine \<open>EMA.calculate\<close> belongs to a
  library that is not part of the repository; it is the parameter \<open>EMA\<close>, called with the
  period and the values.\<close>

definition evaluate ::
  "config \<Rightarrow> (nat \<Rightarrow> jsval list \<Rightarrow> jsval list) \<Rightarrow> jsval list \<Rightarrow> nat \<Rightarrow> snapshot" where
  "evaluate cfg EMA closes now =
     (let entryFastArr = EMA (EMA_ENTRY_FAST cfg) closes;
          entrySlowArr = EMA (EMA_ENTRY_SLOW cfg) closes;
          exitFastArr = EMA (EMA_EXIT_FAST cfg) closes;
          exitSlowArr = EMA (EMA_EXIT_SLOW cfg) closes;
          fastPrevEntry = js_at entryFastArr (- 2);
          slowPrevEntry = js_at entrySlowArr (- 2);
          fastEntry = js_at entryFastArr (- 1);
          slowEntry = js_at entrySlowArr (- 1);
          fastPrevExit = js_at exitFastArr (- 2);
          slowPrevExit = js_at exitSlowArr (- 2);
          fastExit = js_at exitFastArr (- 1);
          slowExit = js_at exitSlowArr (- 1)
      in \<lparr>price = js_at closes (- 1),
          emaEntryFast = fastEntry, emaEntrySlow = slowEntry,
          emaExitFast = fastExit, emaExitSlow = slowExit,
          entrySignal = detectCross fastPrevEntry slowPrevEntry fastEntry slowEntry,
          exitSignal = detectCross fastPrevExit slowPrevExit fastExit slowExit,
          lastTickAt = Some now\<rparr>)"

text \<open>Lines 239-253: which trade operation the tick calls.\<close>

datatype action = NoTrade | CallOpenTrade side | CallCloseTrade

definition decide :: "position option \<Rightarrow> signal \<Rightarrow> signal \<Rightarrow> action" where
  "decide pos entrySig exitSig =
     (case pos of
        None \<Rightarrow>
          (if entrySig = GOLDEN then CallOpenTrade LONG
           else if entrySig = DEATH then CallOpenTrade SHORT
           else NoTrade)
      | Some p \<Rightarrow>
          (if exitSig = GOLDEN \<and> positionType p = SHORT then CallCloseTrade
           else if exitSig = DEATH \<and> positionType p = LONG then CallCloseTrade
           else NoTrade))"

definition perform :: "config \<Rightarrow> nat \<Rightarrow> snapshot \<Rightarrow> action \<Rightarrow> state \<Rightarrow> state" where
  "perform cfg now v a s =
     (case a of
        NoTrade \<Rightarrow> s
      | CallOpenTrade pt \<Rightarrow> openTrade cfg now pt (price v) (emaEntryFast v) (emaEntrySlow v) s
      | CallCloseTrade \<Rightarrow> closeTrade cfg now (price v) (emaExitFast v) (emaExitSlow v) s)"

text \<open>\<open>x.toFixed(2)\<close> raises a TypeError when \<open>x\<close> is \<open>undefined\<close> or \<open>null\<close>.\<close>

fun toFixed_throws :: "jsval \<Rightarrow> bool" where
  "toFixed_throws Undefined = True"
| "toFixed_throws Null = True"
| "toFixed_throws _ = False"

text \<open>The body of the \<open>try\<close> block (lines 199-264), from the moment the request of
  \<open>fetchCloses\<close> settles. The result is the exception raised, if any, and the state
  reached. The store operations awaited inside \<open>openTrade\<close> and \<open>closeTrade\<close> run to
  their end at once; the block never assigns \<open>isTickRunning\<close>, so an invocation that
  arrives while one of them is pending finds the guard held, as one that arrives during the
  fetch does.\<close>

definition tick_try ::
  "config \<Rightarrow> (nat \<Rightarrow> jsval list \<Rightarrow> jsval list) \<Rightarrow> env \<Rightarrow> state \<Rightarrow> error option \<times> state" where
  "tick_try cfg EMA e s =
     (case fetchCloses e of
        Inl err \<Rightarrow> (Some err, s)
      | Inr closes \<Rightarrow>
          if length closes < max (EMA_ENTRY_SLOW cfg) (EMA_EXIT_SLOW cfg)
          then (None, s\<lparr>console := console s @ [WarnNotEnoughCandles]\<rparr>)
          else
            (let v = evaluate cfg EMA closes (clock e);
                 s1 = s\<lparr>cached := v\<rparr>;
                 s2 = perform cfg (clock e) v
                        (decide (openPosition s1) (entrySignal v) (exitSignal v)) s1
             in if toFixed_throws (emaEntryFast v) \<or> toFixed_throws (emaEntrySlow v)
                   \<or> toFixed_throws (emaExitFast v) \<or> toFixed_throws (emaExitSlow v)
                then (Some TypeError, s2)
                else (None, s2\<lparr>console := console s2 @ [LogTick v (openPosition s2)]\<rparr>)))"

text \<open>Lines 196-197: the guard. \<open>None\<close> is the immediate return; otherwise the flag is
  set and the invocation is suspended on the request of \<open>fetchCloses\<close>.\<close>

definition tick_enter :: "state \<Rightarrow> state option" where
  "tick_enter s = (if isTickRunning s then None else Some (s\<lparr>isTickRunning := True\<rparr>))"

text \<open>The rest of the invocation once the request has settled: the \<open>try\<close> block, the
  \<open>catch\<close> (line 266) and the \<open>finally\<close> (line 268).\<close>

definition tick_resume ::
  "config \<Rightarrow> (nat \<Rightarrow> jsval list \<Rightarrow> jsval list) \<Rightarrow> env \<Rightarrow> state \<Rightarrow> state" where
  "tick_resume cfg EMA e s =
     (case tick_try cfg EMA e s of
        (err, s') \<Rightarrow>
          (let s'' = (case err of
                        Some x \<Rightarrow> s'\<lparr>console := console s' @ [ErrorTick x]\<rparr>
                      | None \<Rightarrow> s')
           in s''\<lparr>isTickRunning := False\<rparr>))"

definition tick ::
  "config \<Rightarrow> (nat \<Rightarrow> jsval list \<Rightarrow> jsval list) \<Rightarrow> env \<Rightarrow> state \<Rightarrow> state" where
  "tick cfg EMA e s =
     (case tick_enter s of
        None \<Rightarrow> s
      | Some s1 \<Rightarrow> tick_resume cfg EMA e s1)"

text \<open>A sequence of invocations, each one run to its end before the next begins.\<close>

definition ticks ::
  "config \<Rightarrow> (nat \<Rightarrow> jsval list \<Rightarrow> jsval list) \<Rightarrow> env list \<Rightarrow> state \<Rightarrow> state" where
  "ticks cfg EMA es s = foldl (\<lambda>st e. tick cfg EMA e st) s es"

section \<open>The moving-average engine\<close>

text \<open>
  Modelled from the spec: \<open>EMA.calculate\<close> comes from the library
  \<open>technicalindicators\<close>, which is not part of the repository. Section 6 of the
  specification gives its contract: a pure function from a period and a series to a series
  of length \<open>max(0, len(series) - period + 1)\<close>.
\<close>

definition EMA_contract :: "(nat \<Rightarrow> jsval list \<Rightarrow> jsval list) \<Rightarrow> bool" where
  "EMA_contract EMA = (\<forall>period values. length (EMA period values) = length values + 1 - period)"

text \<open>
  Modelled from the spec: an engine that meets the contract, each output being the
  exponential moving average up to and including that sample. The first output is the mean
  of the first \<open>period\<close> values, and each later one moves the previous output towards the
  new value by the factor \<open>2 / (period + 1)\<close>.
\<close>

fun ema_from :: "rat \<Rightarrow> jsval \<Rightarrow> jsval list \<Rightarrow> jsval list" where
  "ema_from k prev [] = []"
| "ema_from k prev (x # xs) =
     (let cur = js_add (js_mul (js_sub x prev) (Num k)) prev in cur # ema_from k cur xs)"

definition EMA_calculate :: "nat \<Rightarrow> jsval list \<Rightarrow> jsval list" where
  "EMA_calculate period values =
     (if length values < period then []
      else (let total = foldl js_add (Num 0) (take period values);
                seed = (if period = 0 then NaN
                        else js_arith (\<lambda>a b. a / b) total (Num (of_nat period)))
            in seed # ema_from (2 / (of_nat period + 1)) seed (drop period values)))"

section \<open>The initial state and example inputs\<close>

text \<open>The values the module-level variables start with (lines 87-98), on an empty
  collection.\<close>

definition initial_snapshot :: snapshot where
  "initial_snapshot =
     \<lparr>price = Null, emaEntryFast = Null, emaEntrySlow = Null, emaExitFast = Null,
      emaExitSlow = Null, entrySignal = NONE, exitSignal = NONE, lastTickAt = None\<rparr>"

definition initial_state :: state where
  "initial_state =
     \<lparr>isTickRunning = False, openPosition = None, cached = initial_snapshot,
      positionsCol = [], console = []\<rparr>"

text \<open>A persistent configuration with short periods, a position as line 129 builds it
  (with the quantity left open), and states that hold it.\<close>

definition example_config :: config where
  "example_config =
     \<lparr>SYMBOL = ''BTCUSDT'', EMA_ENTRY_FAST = 2, EMA_ENTRY_SLOW = 3,
      EMA_EXIT_FAST = 2, EMA_EXIT_SLOW = 3, DRY_RUN = False\<rparr>"

definition example_long :: "jsval \<Rightarrow> position" where
  "example_long q =
     \<lparr>doc_id = ObjectId 1, symbol = ''BTCUSDT'', status = OPEN, qty = q,
      positionType = LONG, entryPrice = Num 100, entryTime = 1,
      entryEMAfast = Num 101, entryEMAslow = Num 99, createdAt = 1, updatedAt = 1,
      exitPrice = Undefined, exitTime = None, exitEMAfast = Undefined,
      exitEMAslow = Undefined, profitLoss = Undefined\<rparr>"

definition example_closed :: position where
  "example_closed = (example_long (Num 1))\<lparr>status := CLOSED\<rparr>"

definition holding :: "position \<Rightarrow> state" where
  "holding p = initial_state\<lparr>openPosition := Some p, positionsCol := [p]\<rparr>"

definition golden_closes :: "jsval list" where
  "golden_closes = [Num 5, Num 4, Num 3, Num 2, Num 1, Num 10]"

definition death_closes :: "jsval list" where
  "death_closes = [Num 1, Num 2, Num 3, Num 4, Num 5, Num 0]"

definition minimal_closes :: "jsval list" where
  "minimal_closes = [Num 5, Num 4, Num 7]"

definition short_closes :: "jsval list" where
  "short_closes = [Num 5, Num 4]"

section \<open>The single-open-position invariant\<close>

text \<open>The records of the store that are OPEN for the configured instrument, the property
  that there is at most one, and the agreement of the cache with the store: identifiers are
  unique, and every such record is the cached position.\<close>

definition open_docs :: "config \<Rightarrow> position list \<Rightarrow> position list" where
  "open_docs cfg col = filter (\<lambda>d. symbol d = SYMBOL cfg \<and> status d = OPEN) col"

definition at_most_one_open :: "config \<Rightarrow> position list \<Rightarrow> bool" where
  "at_most_one_open cfg col = (length (open_docs cfg col) \<le> 1)"

definition cache_agrees :: "config \<Rightarrow> position option \<Rightarrow> position list \<Rightarrow> bool" where
  "cache_agrees cfg pos col =
     (distinct (map doc_id col)
      \<and> (\<forall>d\<in>set (open_docs cfg col). \<exists>p. pos = Some p \<and> doc_id p = doc_id d))"

section \<open>Helper lemmas\<close>

lemma js_lt_Num [simp]: "js_lt (Num a) (Num b) = (a < b)"
  by (simp add: js_lt_def)

lemma js_gt_Num [simp]: "js_gt (Num a) (Num b) = (b < a)"
  by (simp add: js_gt_def)

lemma js_lt_Undefined [simp]: "js_lt Undefined b = False" "js_lt a Undefined = False"
  by (simp_all add: js_lt_def split: option.splits)

lemma js_gt_Undefined [simp]: "js_gt Undefined b = False" "js_gt a Undefined = False"
  by (simp_all add: js_gt_def)

lemma findOneAndUpdate_match:
  "\<forall>x\<in>set xs. \<not> flt x \<Longrightarrow> flt d \<Longrightarrow>
   findOneAndUpdate flt upd (xs @ d # ys) = (Some (upd d), xs @ upd d # ys)"
  by (induction xs) auto

lemma findOneAndUpdate_miss:
  "\<forall>x\<in>set xs. \<not> flt x \<Longrightarrow> findOneAndUpdate flt upd xs = (None, xs)"
  by (induction xs) auto

lemma pnl_of_Num:
  "entryPrice p = Num en \<Longrightarrow>
   pnl_of p (Num ex) =
     Num ((if positionType p = LONG then ex - en else en - ex)
          * (case qty p of Num q \<Rightarrow> if q = 0 then 1 else q | _ \<Rightarrow> 1))"
  by (cases "qty p") (simp_all add: pnl_of_def js_or_def js_mul_def js_sub_def js_arith_def)

lemma perform_cached: "cached (perform cfg now v a s) = cached s"
  by (cases a) (simp_all add: perform_def openTrade_def closeTrade_def insertOne_def Let_def
      split: option.splits prod.splits)

lemma perform_guard: "isTickRunning (perform cfg now v a s) = isTickRunning s"
  by (cases a) (simp_all add: perform_def openTrade_def closeTrade_def insertOne_def Let_def
      split: option.splits prod.splits)

lemma perform_frame:
  "openPosition (perform cfg now v a (s\<lparr>isTickRunning := b, cached := c\<rparr>))
     = openPosition (perform cfg now v a s)"
  "positionsCol (perform cfg now v a (s\<lparr>isTickRunning := b, cached := c\<rparr>))
     = positionsCol (perform cfg now v a s)"
  by (cases a; simp add: perform_def openTrade_def closeTrade_def insertOne_def Let_def
      split: option.splits prod.splits)+

lemma tick_held: "isTickRunning s \<Longrightarrow> tick cfg EMA e s = s"
  by (simp add: tick_def tick_enter_def)

lemma tick_fetch_failed:
  "\<not> isTickRunning s \<Longrightarrow> response e = Inl err \<Longrightarrow>
   tick cfg EMA e s = s\<lparr>console := console s @ [ErrorTick err]\<rparr>"
  by (cases s) (simp add: tick_def tick_enter_def tick_resume_def tick_try_def fetchCloses_def)

lemma tick_short:
  "\<not> isTickRunning s \<Longrightarrow> response e = Inr closes \<Longrightarrow>
   length closes < max (EMA_ENTRY_SLOW cfg) (EMA_EXIT_SLOW cfg) \<Longrightarrow>
   tick cfg EMA e s = s\<lparr>console := console s @ [WarnNotEnoughCandles]\<rparr>"
  by (cases s) (simp add: tick_def tick_enter_def tick_resume_def tick_try_def fetchCloses_def)

lemma resume_accepted:
  assumes "response e = Inr closes"
    and "max (EMA_ENTRY_SLOW cfg) (EMA_EXIT_SLOW cfg) \<le> length closes"
  shows "cached (tick_resume cfg EMA e s) = evaluate cfg EMA closes (clock e)"
    and "openPosition (tick_resume cfg EMA e s) =
           openPosition (perform cfg (clock e) (evaluate cfg EMA closes (clock e))
             (decide (openPosition s) (entrySignal (evaluate cfg EMA closes (clock e)))
                (exitSignal (evaluate cfg EMA closes (clock e)))) (s\<lparr>cached := evaluate cfg EMA closes (clock e)\<rparr>))"
    and "positionsCol (tick_resume cfg EMA e s) =
           positionsCol (perform cfg (clock e) (evaluate cfg EMA closes (clock e))
             (decide (openPosition s) (entrySignal (evaluate cfg EMA closes (clock e)))
                (exitSignal (evaluate cfg EMA closes (clock e)))) (s\<lparr>cached := evaluate cfg EMA closes (clock e)\<rparr>))"
proof -
  have acc: "(length closes < max (EMA_ENTRY_SLOW cfg) (EMA_EXIT_SLOW cfg)) = False"
    using assms(2) by (simp only: not_less [symmetric] simp_thms)
  show "cached (tick_resume cfg EMA e s) = evaluate cfg EMA closes (clock e)"
    by (simp add: tick_resume_def tick_try_def fetchCloses_def Let_def perform_cached assms(1) acc)
  show "openPosition (tick_resume cfg EMA e s) =
           openPosition (perform cfg (clock e) (evaluate cfg EMA closes (clock e))
             (decide (openPosition s) (entrySignal (evaluate cfg EMA closes (clock e)))
                (exitSignal (evaluate cfg EMA closes (clock e)))) (s\<lparr>cached := evaluate cfg EMA closes (clock e)\<rparr>))"
    by (simp add: tick_resume_def tick_try_def fetchCloses_def Let_def assms(1) acc)
  show "positionsCol (tick_resume cfg EMA e s) =
           positionsCol (perform cfg (clock e) (evaluate cfg EMA closes (clock e))
             (decide (openPosition s) (entrySignal (evaluate cfg EMA closes (clock e)))
                (exitSignal (evaluate cfg EMA closes (clock e)))) (s\<lparr>cached := evaluate cfg EMA closes (clock e)\<rparr>))"
    by (simp add: tick_resume_def tick_try_def fetchCloses_def Let_def assms(1) acc)
qed

lemma resume_guard: "isTickRunning (tick_resume cfg EMA e s) = False"
  by (simp add: tick_resume_def Let_def split: prod.splits option.splits)

lemma try_guard: "isTickRunning (snd (tick_try cfg EMA e s)) = isTickRunning s"
  by (simp add: tick_try_def Let_def perform_guard split: sum.splits)

lemmas js_defs = js_add_def js_sub_def js_mul_def js_arith_def js_at_def js_lt_def js_gt_def

lemma evaluate_golden:
  "evaluate example_config EMA_calculate golden_closes now =
     \<lparr>price = Num 10, emaEntryFast = Num (43 / 6), emaEntrySlow = Num 6,
      emaExitFast = Num (43 / 6), emaExitSlow = Num 6,
      entrySignal = GOLDEN, exitSignal = GOLDEN, lastTickAt = Some now\<rparr>"
  by (simp add: evaluate_def example_config_def golden_closes_def EMA_calculate_def
      detectCross_def js_defs Let_def)

lemma evaluate_death:
  "evaluate example_config EMA_calculate death_closes now =
     \<lparr>price = Num 0, emaEntryFast = Num (3 / 2), emaEntrySlow = Num 2,
      emaExitFast = Num (3 / 2), emaExitSlow = Num 2,
      entrySignal = DEATH, exitSignal = DEATH, lastTickAt = Some now\<rparr>"
  by (simp add: evaluate_def example_config_def death_closes_def EMA_calculate_def
      detectCross_def js_defs Let_def)

lemma evaluate_minimal:
  "evaluate example_config EMA_calculate minimal_closes now =
     \<lparr>price = Num 7, emaEntryFast = Num (37 / 6), emaEntrySlow = Num (16 / 3),
      emaExitFast = Num (37 / 6), emaExitSlow = Num (16 / 3),
      entrySignal = NONE, exitSignal = NONE, lastTickAt = Some now\<rparr>"
  by (simp add: evaluate_def example_config_def minimal_closes_def EMA_calculate_def
      detectCross_def js_defs Let_def)

lemma perform_console:
  "\<exists>l. console (perform cfg now v a s) = console s @ l \<and> WarnNotEnoughCandles \<notin> set l"
  by (cases a) (auto simp add: perform_def openTrade_def closeTrade_def insertOne_def Let_def
      split: option.splits prod.splits)

lemma resume_console:
  assumes "response e = Inr closes"
    and "max (EMA_ENTRY_SLOW cfg) (EMA_EXIT_SLOW cfg) \<le> length closes"
  shows "\<exists>l. console (tick_resume cfg EMA e s) = console s @ l \<and> WarnNotEnoughCandles \<notin> set l"
proof -
  have acc: "(length closes < max (EMA_ENTRY_SLOW cfg) (EMA_EXIT_SLOW cfg)) = False"
    using assms(2) by (simp only: not_less [symmetric] simp_thms)
  let ?v = "evaluate cfg EMA closes (clock e)"
  let ?s2 = "perform cfg (clock e) ?v (decide (openPosition s) (entrySignal ?v) (exitSignal ?v))
               (s\<lparr>cached := ?v\<rparr>)"
  obtain l where l: "console ?s2 = console s @ l" "WarnNotEnoughCandles \<notin> set l"
    using perform_console [of cfg "clock e" ?v _ "s\<lparr>cached := ?v\<rparr>"] by auto
  have "\<exists>x. console (tick_resume cfg EMA e s) = console ?s2 @ [x] \<and> x \<noteq> WarnNotEnoughCandles"
    by (simp add: tick_resume_def tick_try_def fetchCloses_def Let_def assms(1) acc)
  then obtain x where "console (tick_resume cfg EMA e s) = console s @ (l @ [x])"
    "x \<noteq> WarnNotEnoughCandles" using l(1) by auto
  with l(2) have "console (tick_resume cfg EMA e s) = console s @ (l @ [x])
      \<and> WarnNotEnoughCandles \<notin> set (l @ [x])" by simp
  then show ?thesis by blast
qed

lemma tick_unfold:
  "\<not> isTickRunning s \<Longrightarrow> tick cfg EMA e s = tick_resume cfg EMA e (s\<lparr>isTickRunning := True\<rparr>)"
  by (simp add: tick_def tick_enter_def)

lemma tick_trade:
  assumes "\<not> isTickRunning s" and "response e = Inr closes"
    and "max (EMA_ENTRY_SLOW cfg) (EMA_EXIT_SLOW cfg) \<le> length closes"
    and "v = evaluate cfg EMA closes (clock e)"
    and "a = decide (openPosition s) (entrySignal v) (exitSignal v)"
  shows "openPosition (tick cfg EMA e s) = openPosition (perform cfg (clock e) v a s)"
    and "positionsCol (tick cfg EMA e s) = positionsCol (perform cfg (clock e) v a s)"
  unfolding tick_unfold [OF assms(1)] assms(4,5)
  using resume_accepted(2,3) [OF assms(2,3), of EMA "s\<lparr>isTickRunning := True\<rparr>"]
  by (simp_all add: perform_frame)

lemma ema_from_length: "length (ema_from k prev xs) = length xs"
  by (induction xs arbitrary: prev) (simp_all add: Let_def)

lemma EMA_calculate_length: "length (EMA_calculate period values) = length values + 1 - period"
  by (auto simp add: EMA_calculate_def Let_def ema_from_length)

lemma EMA_calculate_contract: "EMA_contract EMA_calculate"
  by (simp add: EMA_contract_def EMA_calculate_length)

lemma js_at_singleton: "length xs = 1 \<Longrightarrow> js_at xs (- 2) = Undefined"
  by (simp add: js_at_def)

lemma detectCross_no_prevSlow: "detectCross pf Undefined f sl = NONE"
  by (simp add: detectCross_def)

lemma enter_Some: "tick_enter s = Some s1 \<Longrightarrow> \<not> isTickRunning s \<and> s1 = s\<lparr>isTickRunning := True\<rparr>"
  by (simp add: tick_enter_def split: if_splits)

lemma fresh_id_bound:
  "d \<in> set col \<Longrightarrow> doc_id d = ObjectId n \<Longrightarrow>
   n \<le> foldr (\<lambda>d m. case doc_id d of ObjectId n \<Rightarrow> max n m | Dryrun \<Rightarrow> m) col 0"
  by (induction col) (auto split: ident.splits)

lemma fresh_id_new: "fresh_id col \<notin> doc_id ` set col"
proof
  assume "fresh_id col \<in> doc_id ` set col"
  then obtain d where d: "d \<in> set col" "doc_id d = fresh_id col" by auto
  from fresh_id_bound [OF d(1)] d(2) show False
    by (auto simp add: fresh_id_def)
qed

lemma findOneAndUpdate_cases:
  "(\<exists>xs d ys. col = xs @ d # ys \<and> (\<forall>x\<in>set xs. \<not> flt x) \<and> flt d)
   \<or> (\<forall>x\<in>set col. \<not> flt x)"
proof (induction col)
  case Nil
  then show ?case by simp
next
  case (Cons a col)
  show ?case
  proof (cases "flt a")
    case True
    then have "a # col = [] @ a # col \<and> (\<forall>x\<in>set []. \<not> flt x) \<and> flt a" by simp
    then show ?thesis by blast
  next
    case False
    from Cons.IH show ?thesis
    proof
      assume "\<exists>xs d ys. col = xs @ d # ys \<and> (\<forall>x\<in>set xs. \<not> flt x) \<and> flt d"
      then obtain xs d ys where "col = xs @ d # ys" "\<forall>x\<in>set xs. \<not> flt x" "flt d" by blast
      with False have "a # col = (a # xs) @ d # ys \<and> (\<forall>x\<in>set (a # xs). \<not> flt x) \<and> flt d"
        by simp
      then show ?thesis by blast
    next
      assume "\<forall>x\<in>set col. \<not> flt x"
      with False show ?thesis by simp
    qed
  qed
qed

lemma openTrade_agrees:
  assumes "\<not> DRY_RUN cfg" and "cache_agrees cfg None (positionsCol s)"
  shows "cache_agrees cfg (openPosition (openTrade cfg now pt pr ef es s))
           (positionsCol (openTrade cfg now pt pr ef es s))"
  using assms fresh_id_new [of "positionsCol s"]
  by (auto simp add: cache_agrees_def open_docs_def openTrade_def insertOne_def Let_def)

lemma closeTrade_agrees:
  assumes "\<not> DRY_RUN cfg" and "openPosition s = Some p"
    and "cache_agrees cfg (Some p) (positionsCol s)"
  shows "cache_agrees cfg (openPosition (closeTrade cfg now pr ef es s))
           (positionsCol (closeTrade cfg now pr ef es s))"
proof -
  let ?flt = "\<lambda>d. doc_id d = doc_id p \<and> status d = OPEN"
  let ?upd = "close_update now pr ef es (pnl_of p pr)"
  from findOneAndUpdate_cases [of "positionsCol s" ?flt]
  show ?thesis
  proof
    assume "\<exists>xs d ys. positionsCol s = xs @ d # ys \<and> (\<forall>x\<in>set xs. \<not> ?flt x) \<and> ?flt d"
    then obtain xs d ys where c: "positionsCol s = xs @ d # ys"
      and x: "\<forall>x\<in>set xs. \<not> ?flt x" and d: "?flt d" by blast
    have f: "findOneAndUpdate ?flt ?upd (positionsCol s) = (Some (?upd d), xs @ ?upd d # ys)"
      unfolding c using x d by (intro findOneAndUpdate_match) auto
    have r: "openPosition (closeTrade cfg now pr ef es s) = None"
      "positionsCol (closeTrade cfg now pr ef es s) = xs @ ?upd d # ys"
      using assms(1,2) f by (simp_all add: closeTrade_def Let_def)
    have u: "doc_id (?upd d) = doc_id d" "status (?upd d) = CLOSED"
      by (simp_all add: close_update_def)
    have dist: "distinct (map doc_id (xs @ d # ys))"
      using assms(3) c by (simp add: cache_agrees_def)
    have same: "\<forall>x\<in>set (open_docs cfg (xs @ d # ys)). doc_id x = doc_id p"
      using assms(3) c by (auto simp add: cache_agrees_def)
    have "open_docs cfg (xs @ ?upd d # ys) = []"
    proof (rule ccontr)
      assume "open_docs cfg (xs @ ?upd d # ys) \<noteq> []"
      then obtain y where y: "y \<in> set (open_docs cfg (xs @ ?upd d # ys))"
        by (cases "open_docs cfg (xs @ ?upd d # ys)") auto
      then have yin: "y \<in> set xs \<union> set ys" and yo: "symbol y = SYMBOL cfg \<and> status y = OPEN"
        using u(2) by (auto simp add: open_docs_def)
      then have "y \<in> set (open_docs cfg (xs @ d # ys))" by (auto simp add: open_docs_def)
      with same have "doc_id y = doc_id d" using d by simp
      then have "doc_id d \<in> doc_id ` (set xs \<union> set ys)" using yin by (metis imageI)
      with dist show False by auto
    qed
    moreover have "distinct (map doc_id (xs @ ?upd d # ys))"
      using dist u(1) by simp
    ultimately show ?thesis
      unfolding r by (simp add: cache_agrees_def)
  next
    assume n: "\<forall>x\<in>set (positionsCol s). \<not> ?flt x"
    have r: "openPosition (closeTrade cfg now pr ef es s) = None"
      "positionsCol (closeTrade cfg now pr ef es s) = positionsCol s"
      using assms(1,2) findOneAndUpdate_miss [OF n] by (simp_all add: closeTrade_def Let_def)
    have "open_docs cfg (positionsCol s) = []"
    proof (rule ccontr)
      assume "open_docs cfg (positionsCol s) \<noteq> []"
      then obtain y where y: "y \<in> set (open_docs cfg (positionsCol s))"
        by (cases "open_docs cfg (positionsCol s)") auto
      then have "doc_id y = doc_id p" using assms(3) by (auto simp add: cache_agrees_def)
      moreover from y have "y \<in> set (positionsCol s)" "status y = OPEN"
        by (auto simp add: open_docs_def)
      ultimately show False using n by blast
    qed
    then show ?thesis
      unfolding r using assms(3) by (simp add: cache_agrees_def)
  qed
qed

lemma decide_None: "decide None a b \<noteq> CallCloseTrade"
  by (simp add: decide_def)

lemma decide_Some: "decide (Some p) a b \<noteq> CallOpenTrade pt"
  by (simp add: decide_def)

lemma perform_agrees:
  assumes "\<not> DRY_RUN cfg" and "cache_agrees cfg (openPosition s) (positionsCol s)"
    and "a = decide (openPosition s) x y"
  shows "cache_agrees cfg (openPosition (perform cfg now v a s))
           (positionsCol (perform cfg now v a s))"
proof (cases a)
  case NoTrade
  then show ?thesis using assms(2) by (simp add: perform_def)
next
  case (CallOpenTrade pt)
  with assms(3) have "openPosition s = None"
    by (cases "openPosition s") (auto simp add: decide_def split: if_splits)
  with assms(1,2) CallOpenTrade show ?thesis
    by (simp add: perform_def openTrade_agrees)
next
  case CallCloseTrade
  with assms(3) obtain p where "openPosition s = Some p"
    by (cases "openPosition s") (auto simp add: decide_def split: if_splits)
  with assms(1,2) CallCloseTrade show ?thesis
    by (simp add: perform_def closeTrade_agrees)
qed

lemma perform_dry: "DRY_RUN cfg \<Longrightarrow> positionsCol (perform cfg now v a s) = positionsCol s"
  by (cases a) (simp_all add: perform_def openTrade_def closeTrade_def Let_def split: option.splits)

lemma tick_effect:
  "(openPosition (tick cfg EMA e s) = openPosition s
      \<and> positionsCol (tick cfg EMA e s) = positionsCol s)
   \<or> (\<exists>now v. openPosition (tick cfg EMA e s) =
          openPosition (perform cfg now v (decide (openPosition s) (entrySignal v) (exitSignal v)) s)
       \<and> positionsCol (tick cfg EMA e s) =
          positionsCol (perform cfg now v (decide (openPosition s) (entrySignal v) (exitSignal v)) s))"
proof (cases "isTickRunning s")
  case True
  then show ?thesis by (simp add: tick_held)
next
  case False
  show ?thesis
  proof (cases "response e")
    case (Inl err)
    with False show ?thesis by (simp add: tick_fetch_failed)
  next
    case (Inr closes)
    show ?thesis
    proof (cases "length closes < max (EMA_ENTRY_SLOW cfg) (EMA_EXIT_SLOW cfg)")
      case True
      with False Inr show ?thesis by (simp add: tick_short)
    next
      case False
      then have m: "max (EMA_ENTRY_SLOW cfg) (EMA_EXIT_SLOW cfg) \<le> length closes"
        by (simp only: not_less)
      from tick_trade [OF \<open>\<not> isTickRunning s\<close> Inr m refl refl, of EMA]
      show ?thesis by blast
    qed
  qed
qed

lemma tick_agrees:
  assumes "\<not> DRY_RUN cfg" and "cache_agrees cfg (openPosition s) (positionsCol s)"
  shows "cache_agrees cfg (openPosition (tick cfg EMA e s)) (positionsCol (tick cfg EMA e s))"
  using tick_effect [of cfg EMA e s] perform_agrees [OF assms refl] assms(2)
  by auto

lemma tick_dry: "DRY_RUN cfg \<Longrightarrow> positionsCol (tick cfg EMA e s) = positionsCol s"
  using tick_effect [of cfg EMA e s] by (auto simp add: perform_dry)

lemma ticks_agrees:
  "\<not> DRY_RUN cfg \<Longrightarrow> cache_agrees cfg (openPosition s) (positionsCol s) \<Longrightarrow>
   cache_agrees cfg (openPosition (ticks cfg EMA es s)) (positionsCol (ticks cfg EMA es s))"
  unfolding ticks_def
  by (induction es arbitrary: s) (simp_all add: tick_agrees)

lemma ticks_dry: "DRY_RUN cfg \<Longrightarrow> positionsCol (ticks cfg EMA es s) = positionsCol s"
  unfolding ticks_def
  by (induction es arbitrary: s) (simp_all add: tick_dry)

lemma agrees_at_most_one:
  assumes "cache_agrees cfg pos col"
  shows "at_most_one_open cfg col"
proof (cases "open_docs cfg col")
  case Nil
  then show ?thesis by (simp add: at_most_one_open_def)
next
  case (Cons a as)
  show ?thesis
  proof (cases as)
    case Nil
    with Cons show ?thesis by (simp add: at_most_one_open_def)
  next
    case (Cons b bs)
    with \<open>open_docs cfg col = a # as\<close> have o: "open_docs cfg col = a # b # bs" by simp
    have "distinct (map doc_id (open_docs cfg col))"
      using assms by (simp add: cache_agrees_def open_docs_def distinct_map_filter)
    with o have "doc_id a \<noteq> doc_id b" by simp
    moreover from assms o have "doc_id a = doc_id b"
      by (auto simp add: cache_agrees_def)
    ultimately show ?thesis by simp
  qed
qed

lemma restore_agrees:
  assumes "at_most_one_open cfg col" and "distinct (map doc_id col)"
  shows "cache_agrees cfg (find_latest (\<lambda>d. symbol d = SYMBOL cfg \<and> status d = OPEN) col) col"
proof (cases "open_docs cfg col")
  case Nil
  with assms(2) show ?thesis by (simp add: cache_agrees_def)
next
  case (Cons a as)
  with assms(1) have "open_docs cfg col = [a]" by (simp add: at_most_one_open_def)
  then show ?thesis
    using assms(2) by (simp add: cache_agrees_def find_latest_def open_docs_def)
qed

lemma findOneAndUpdate_length: "length (snd (findOneAndUpdate flt upd col)) = length col"
  by (induction col) (auto split: prod.splits)

lemma closeTrade_keeps_length:
  "length (positionsCol (closeTrade cfg now pr ef es s)) = length (positionsCol s)"
  using findOneAndUpdate_length [of "\<lambda>d. doc_id d = doc_id (the (openPosition s)) \<and> status d = OPEN"
      "close_update now pr ef es (pnl_of (the (openPosition s)) pr)" "positionsCol s"]
  by (auto simp add: closeTrade_def Let_def split: option.splits prod.splits)

lemma closeTrade_cache:
  "openPosition (closeTrade cfg now pr ef es s) = None \<or>
   openPosition (closeTrade cfg now pr ef es s) = openPosition s"
  by (auto simp add: closeTrade_def Let_def split: option.splits prod.splits)

lemma perform_no_open:
  assumes "\<forall>pt. a \<noteq> CallOpenTrade pt"
  shows "length (positionsCol (perform cfg now v a s)) = length (positionsCol s)"
    and "openPosition (perform cfg now v a s) = None
          \<or> openPosition (perform cfg now v a s) = openPosition s"
  using assms closeTrade_cache [of cfg now "price v" "emaExitFast v" "emaExitSlow v" s]
  by (cases a; simp add: perform_def closeTrade_keeps_length)+

lemma decide_entry_NONE: "decide pos NONE x \<noteq> CallOpenTrade pt"
  by (simp add: decide_def split: option.splits)

section \<open>The signal detector\<close>

text \<open>
  Claim C2. For all numbers \<open>prevFast\<close>, \<open>prevSlow\<close>, \<open>fast\<close> and \<open>slow\<close>, \<open>detectCross\<close>
  returns GOLDEN exactly when \<open>prevFast < prevSlow\<close> and \<open>fast > slow\<close>, DEATH exactly
  when \<open>prevFast > prevSlow\<close> and \<open>fast < slow\<close>, and NONE in every other case; the ties
  \<open>prevFast = prevSlow\<close> and \<open>fast = slow\<close> give NONE. The same characterisation holds
  for all values, \<open>NaN\<close> and \<open>undefined\<close> included, with the comparisons of the
  language.
\<close>

theorem detectCross_spec:
  "(detectCross (Num pf) (Num ps) (Num f) (Num sl) = GOLDEN \<longleftrightarrow> pf < ps \<and> f > sl)
   \<and> (detectCross (Num pf) (Num ps) (Num f) (Num sl) = DEATH \<longleftrightarrow> pf > ps \<and> f < sl)
   \<and> (detectCross (Num pf) (Num ps) (Num f) (Num sl) = NONE
        \<longleftrightarrow> \<not> (pf < ps \<and> f > sl) \<and> \<not> (pf > ps \<and> f < sl))
   \<and> detectCross (Num pf) (Num pf) (Num f) (Num sl) = NONE
   \<and> detectCross (Num pf) (Num ps) (Num f) (Num f) = NONE
   \<and> (detectCross a b c d = GOLDEN \<longleftrightarrow> js_lt a b \<and> js_gt c d)
   \<and> (detectCross a b c d = DEATH \<longleftrightarrow> js_gt a b \<and> js_lt c d)
   \<and> (detectCross a b c d = NONE
        \<longleftrightarrow> \<not> (js_lt a b \<and> js_gt c d) \<and> \<not> (js_gt a b \<and> js_lt c d))"
proof -
  have excl: "\<not> (js_lt x y \<and> js_gt x y)" for x y
    by (auto simp add: js_gt_def js_lt_def split: option.splits)
  have num: "detectCross (Num pf) (Num ps) (Num f) (Num sl) =
      (if pf < ps \<and> sl < f then GOLDEN else if ps < pf \<and> f < sl then DEATH else NONE)"
    for pf ps f sl
    by (simp add: detectCross_def)
  have gen: "(detectCross a b c d = GOLDEN \<longleftrightarrow> js_lt a b \<and> js_gt c d)
     \<and> (detectCross a b c d = DEATH \<longleftrightarrow> js_gt a b \<and> js_lt c d)
     \<and> (detectCross a b c d = NONE
          \<longleftrightarrow> \<not> (js_lt a b \<and> js_gt c d) \<and> \<not> (js_gt a b \<and> js_lt c d))"
    using excl [of a b] by (auto simp add: detectCross_def)
  show ?thesis
    using gen by (auto simp add: num)
qed

section \<open>The position lifecycle\<close>

text \<open>
  Claim C7. Calling \<open>closeTrade\<close> when no position is cached as open changes nothing: no
  durable write, no change of the cache, the snapshot or the guard, and no output, for
  every price and every pair of moving-average values.
\<close>

theorem closeTrade_noop:
  "openPosition s = None \<Longrightarrow> closeTrade cfg now pr emaFast emaSlow s = s"
  by (simp add: closeTrade_def)

theorem closeTrade_noop_witness:
  "openPosition initial_state = None \<and>
   closeTrade example_config 5 (Num 90) (Num 91) (Num 92) initial_state = initial_state"
  using closeTrade_noop [of initial_state example_config 5 "Num 90" "Num 91" "Num 92"]
  by (simp add: initial_state_def)

text \<open>
  Claim C6, as amended. When \<open>closeTrade\<close> runs with a cached open position, the profit or
  loss it computes is \<open>(exitPrice - entryPrice) * q\<close> for a LONG and
  \<open>(entryPrice - exitPrice) * q\<close> for a SHORT, where \<open>q\<close> is the quantity of the cached
  position when that is a number other than zero, and 1 when the quantity is zero, not a
  number, or absent (line 154 reads \<open>openPosition.qty || 1\<close>). In persistent mode, when
  the record of the position is still OPEN, that value is recorded as its \<open>profitLoss\<close>
  and the record becomes CLOSED; in dry-run mode nothing is recorded and the value is only
  logged.
\<close>

theorem closeTrade_profitLoss:
  assumes "openPosition s = Some p" and "entryPrice p = Num en"
    and "pl = Num ((if positionType p = LONG then ex - en else en - ex)
                   * (case qty p of Num q \<Rightarrow> if q = 0 then 1 else q | _ \<Rightarrow> 1))"
    and "s' = closeTrade cfg now (Num ex) emaFast emaSlow s"
  shows "(DRY_RUN cfg \<longrightarrow>
            positionsCol s' = positionsCol s
          \<and> console s' = console s @ [LogClose (positionType p) True (Num ex) pl (doc_id p)])
       \<and> (\<not> DRY_RUN cfg \<and> positionsCol s = xs @ d # ys
            \<and> (\<forall>x\<in>set xs. \<not> (doc_id x = doc_id p \<and> status x = OPEN))
            \<and> doc_id d = doc_id p \<and> status d = OPEN \<longrightarrow>
            (\<exists>d'. positionsCol s' = xs @ d' # ys \<and> status d' = CLOSED
                  \<and> exitPrice d' = Num ex \<and> profitLoss d' = pl))"
proof (intro conjI impI)
  assume "DRY_RUN cfg"
  then show "positionsCol s' = positionsCol s"
    using assms(1) by (simp add: assms(4) closeTrade_def Let_def)
next
  assume "DRY_RUN cfg"
  then show "console s' = console s @ [LogClose (positionType p) True (Num ex) pl (doc_id p)]"
    using assms(1) pnl_of_Num [OF assms(2), of ex]
    by (simp add: assms(3,4) closeTrade_def Let_def)
next
  assume a: "\<not> DRY_RUN cfg \<and> positionsCol s = xs @ d # ys
            \<and> (\<forall>x\<in>set xs. \<not> (doc_id x = doc_id p \<and> status x = OPEN))
            \<and> doc_id d = doc_id p \<and> status d = OPEN"
  let ?flt = "\<lambda>x. doc_id x = doc_id p \<and> status x = OPEN"
  let ?upd = "close_update now (Num ex) emaFast emaSlow (pnl_of p (Num ex))"
  have "findOneAndUpdate ?flt ?upd (xs @ d # ys) = (Some (?upd d), xs @ ?upd d # ys)"
    using a by (intro findOneAndUpdate_match) auto
  then have "positionsCol s' = xs @ ?upd d # ys"
    using assms(1) a by (simp add: assms(4) closeTrade_def Let_def)
  moreover have "status (?upd d) = CLOSED" "exitPrice (?upd d) = Num ex"
    by (simp_all add: close_update_def)
  moreover have "profitLoss (?upd d) = pl"
    using pnl_of_Num [OF assms(2), of ex] by (simp add: close_update_def assms(3))
  ultimately show "\<exists>d'. positionsCol s' = xs @ d' # ys \<and> status d' = CLOSED
                  \<and> exitPrice d' = Num ex \<and> profitLoss d' = pl"
    by blast
qed

text \<open>The scenario of the specification: a LONG entered at 100 with quantity 1 and closed
  at 90 records a loss of 10.\<close>

theorem closeTrade_profitLoss_witness:
  "map profitLoss
     (positionsCol (closeTrade example_config 5 (Num 90) (Num 91) (Num 92)
        (holding (example_long (Num 1))))) = [Num (- 10)]"
  using closeTrade_profitLoss [where s = "holding (example_long (Num 1))"
      and p = "example_long (Num 1)" and cfg = example_config and xs = "[]"
      and d = "example_long (Num 1)" and ys = "[]" and en = 100 and ex = 90 and now = 5
      and emaFast = "Num 91" and emaSlow = "Num 92", OF _ _ refl refl]
  by (auto simp: holding_def example_long_def example_config_def initial_state_def)

text \<open>Claim C6 as stated fails for a cached position whose quantity is zero: the formula
  of the claim gives 0, and the record holds a loss of 10.\<close>

theorem closeTrade_profitLoss_counterexample:
  "map profitLoss
     (positionsCol (closeTrade example_config 5 (Num 90) (Num 91) (Num 92)
        (holding (example_long (Num 0))))) = [Num (- 10)]
   \<and> js_mul (js_sub (Num 90) (entryPrice (example_long (Num 0)))) (qty (example_long (Num 0)))
       = Num 0
   \<and> map profitLoss
     (positionsCol (closeTrade example_config 5 (Num 90) (Num 91) (Num 92)
        (holding (example_long (Num 0)))))
       \<noteq> [js_mul (js_sub (Num 90) (entryPrice (example_long (Num 0))))
            (qty (example_long (Num 0)))]"
  by (simp add: closeTrade_def holding_def example_long_def example_config_def
      initial_state_def pnl_of_def js_or_def js_mul_def js_sub_def js_arith_def close_update_def
      Let_def)

text \<open>
  Claim C8. After every call of \<open>closeTrade\<close> that had a cached open position the cache
  is empty. In persistent mode, when no record of the store has the identifier of the cached
  position and status OPEN, the call writes nothing, reports the warning once and clears
  the cache; and the store changes only when such a record exists.
\<close>

theorem closeTrade_conflict:
  assumes "openPosition s = Some p"
  shows "openPosition (closeTrade cfg now pr emaFast emaSlow s) = None
    \<and> (\<not> DRY_RUN cfg \<and> (\<forall>d\<in>set (positionsCol s). \<not> (doc_id d = doc_id p \<and> status d = OPEN))
          \<longrightarrow> closeTrade cfg now pr emaFast emaSlow s =
                s\<lparr>console := console s @ [WarnNoOpenPosition], openPosition := None\<rparr>)
    \<and> (positionsCol (closeTrade cfg now pr emaFast emaSlow s) \<noteq> positionsCol s
          \<longrightarrow> (\<exists>d\<in>set (positionsCol s). doc_id d = doc_id p \<and> status d = OPEN))"
proof (intro conjI impI)
  show "openPosition (closeTrade cfg now pr emaFast emaSlow s) = None"
    using assms by (simp add: closeTrade_def Let_def split: prod.splits)
next
  assume "\<not> DRY_RUN cfg \<and> (\<forall>d\<in>set (positionsCol s). \<not> (doc_id d = doc_id p \<and> status d = OPEN))"
  then show "closeTrade cfg now pr emaFast emaSlow s =
      s\<lparr>console := console s @ [WarnNoOpenPosition], openPosition := None\<rparr>"
    using assms findOneAndUpdate_miss [of "positionsCol s" "\<lambda>d. doc_id d = doc_id p \<and> status d = OPEN"]
    by (simp add: closeTrade_def Let_def)
next
  assume ch: "positionsCol (closeTrade cfg now pr emaFast emaSlow s) \<noteq> positionsCol s"
  show "\<exists>d\<in>set (positionsCol s). doc_id d = doc_id p \<and> status d = OPEN"
  proof (rule ccontr)
    assume "\<not> ?thesis"
    then have "\<forall>d\<in>set (positionsCol s). \<not> (doc_id d = doc_id p \<and> status d = OPEN)" by blast
    then have "positionsCol (closeTrade cfg now pr emaFast emaSlow s) = positionsCol s"
      using assms findOneAndUpdate_miss [of "positionsCol s" "\<lambda>d. doc_id d = doc_id p \<and> status d = OPEN"]
      by (simp add: closeTrade_def Let_def)
    with ch show False by simp
  qed
qed

text \<open>A cached position whose record is already CLOSED: a warning, no write, and an
  empty cache.\<close>

theorem closeTrade_conflict_witness:
  "closeTrade example_config 5 (Num 90) (Num 91) (Num 92)
     (initial_state\<lparr>openPosition := Some (example_long (Num 1)), positionsCol := [example_closed]\<rparr>)
   = initial_state\<lparr>positionsCol := [example_closed], console := [WarnNoOpenPosition]\<rparr>"
  using closeTrade_conflict [of "initial_state\<lparr>openPosition := Some (example_long (Num 1)),
      positionsCol := [example_closed]\<rparr>" "example_long (Num 1)" example_config 5 "Num 90" "Num 91" "Num 92"]
  by (simp add: example_closed_def example_long_def example_config_def initial_state_def)

section \<open>The strategy tick\<close>

text \<open>
  Claim C9. A tick that acquires the guard and whose fetched series is shorter than the larger
  of the two slow periods ends with the warning and changes nothing else: no position, no
  record, no snapshot. A series of exactly that length is accepted: no such warning is
  written, and the snapshot holds the two signals that \<open>detectCross\<close> gives on the last
  two elements of the moving-average series.
\<close>

theorem tick_window_boundary:
  assumes "\<not> isTickRunning s" and "response e = Inr closes"
  shows "(length closes < max (EMA_ENTRY_SLOW cfg) (EMA_EXIT_SLOW cfg) \<longrightarrow>
            tick cfg EMA e s = s\<lparr>console := console s @ [WarnNotEnoughCandles]\<rparr>)
       \<and> (length closes = max (EMA_ENTRY_SLOW cfg) (EMA_EXIT_SLOW cfg) \<longrightarrow>
            entrySignal (cached (tick cfg EMA e s)) =
              detectCross (js_at (EMA (EMA_ENTRY_FAST cfg) closes) (- 2))
                          (js_at (EMA (EMA_ENTRY_SLOW cfg) closes) (- 2))
                          (js_at (EMA (EMA_ENTRY_FAST cfg) closes) (- 1))
                          (js_at (EMA (EMA_ENTRY_SLOW cfg) closes) (- 1))
          \<and> exitSignal (cached (tick cfg EMA e s)) =
              detectCross (js_at (EMA (EMA_EXIT_FAST cfg) closes) (- 2))
                          (js_at (EMA (EMA_EXIT_SLOW cfg) closes) (- 2))
                          (js_at (EMA (EMA_EXIT_FAST cfg) closes) (- 1))
                          (js_at (EMA (EMA_EXIT_SLOW cfg) closes) (- 1))
          \<and> WarnNotEnoughCandles \<notin> set (drop (length (console s)) (console (tick cfg EMA e s))))"
proof (intro conjI impI)
  assume "length closes < max (EMA_ENTRY_SLOW cfg) (EMA_EXIT_SLOW cfg)"
  then show "tick cfg EMA e s = s\<lparr>console := console s @ [WarnNotEnoughCandles]\<rparr>"
    using assms by (simp add: tick_short)
next
  assume len: "length closes = max (EMA_ENTRY_SLOW cfg) (EMA_EXIT_SLOW cfg)"
  then have acc: "max (EMA_ENTRY_SLOW cfg) (EMA_EXIT_SLOW cfg) \<le> length closes" by simp
  have t: "tick cfg EMA e s = tick_resume cfg EMA e (s\<lparr>isTickRunning := True\<rparr>)"
    using assms(1) by (simp add: tick_def tick_enter_def)
  have c: "cached (tick cfg EMA e s) = evaluate cfg EMA closes (clock e)"
    unfolding t by (rule resume_accepted(1) [OF assms(2) acc])
  show "entrySignal (cached (tick cfg EMA e s)) =
              detectCross (js_at (EMA (EMA_ENTRY_FAST cfg) closes) (- 2))
                          (js_at (EMA (EMA_ENTRY_SLOW cfg) closes) (- 2))
                          (js_at (EMA (EMA_ENTRY_FAST cfg) closes) (- 1))
                          (js_at (EMA (EMA_ENTRY_SLOW cfg) closes) (- 1))"
    unfolding c by (simp add: evaluate_def Let_def)
  show "exitSignal (cached (tick cfg EMA e s)) =
              detectCross (js_at (EMA (EMA_EXIT_FAST cfg) closes) (- 2))
                          (js_at (EMA (EMA_EXIT_SLOW cfg) closes) (- 2))
                          (js_at (EMA (EMA_EXIT_FAST cfg) closes) (- 1))
                          (js_at (EMA (EMA_EXIT_SLOW cfg) closes) (- 1))"
    unfolding c by (simp add: evaluate_def Let_def)
  show "WarnNotEnoughCandles \<notin> set (drop (length (console s)) (console (tick cfg EMA e s)))"
  proof -
    obtain l where "console (tick_resume cfg EMA e (s\<lparr>isTickRunning := True\<rparr>)) = console s @ l"
      "WarnNotEnoughCandles \<notin> set l"
      using resume_console [OF assms(2) acc, of EMA "s\<lparr>isTickRunning := True\<rparr>"] by auto
    then show ?thesis unfolding t by simp
  qed
qed

theorem tick_window_boundary_witness:
  "tick example_config EMA_calculate \<lparr>response = Inr short_closes, clock = 7\<rparr> initial_state
     = initial_state\<lparr>console := [WarnNotEnoughCandles]\<rparr>
   \<and> entrySignal (cached (tick example_config EMA_calculate
         \<lparr>response = Inr minimal_closes, clock = 7\<rparr> initial_state)) = NONE"
  using tick_window_boundary [of initial_state "\<lparr>response = Inr short_closes, clock = 7\<rparr>"
      short_closes example_config EMA_calculate]
    tick_window_boundary [of initial_state "\<lparr>response = Inr minimal_closes, clock = 7\<rparr>"
      minimal_closes example_config EMA_calculate]
  by (simp add: initial_state_def example_config_def short_closes_def minimal_closes_def
      EMA_calculate_def detectCross_def js_defs Let_def)

text \<open>
  Claim C4, as amended. Every invocation of \<open>tick\<close> that acquires the guard, whose fetch
  returns, and whose series has at least as many elements as the larger slow period replaces
  the snapshot by the latest price, the last value of each of the four moving-average
  series, both signals and the time of the tick, whatever the trade decision and whatever
  happens after it. An invocation that finds the guard held, whose fetch fails, or whose
  series is shorter leaves the snapshot as it was.
\<close>

theorem tick_refreshes_snapshot:
  "(\<not> isTickRunning s \<and> response e = Inr closes
      \<and> max (EMA_ENTRY_SLOW cfg) (EMA_EXIT_SLOW cfg) \<le> length closes \<longrightarrow>
      cached (tick cfg EMA e s) =
        \<lparr>price = js_at closes (- 1),
         emaEntryFast = js_at (EMA (EMA_ENTRY_FAST cfg) closes) (- 1),
         emaEntrySlow = js_at (EMA (EMA_ENTRY_SLOW cfg) closes) (- 1),
         emaExitFast = js_at (EMA (EMA_EXIT_FAST cfg) closes) (- 1),
         emaExitSlow = js_at (EMA (EMA_EXIT_SLOW cfg) closes) (- 1),
         entrySignal = detectCross (js_at (EMA (EMA_ENTRY_FAST cfg) closes) (- 2))
                         (js_at (EMA (EMA_ENTRY_SLOW cfg) closes) (- 2))
                         (js_at (EMA (EMA_ENTRY_FAST cfg) closes) (- 1))
                         (js_at (EMA (EMA_ENTRY_SLOW cfg) closes) (- 1)),
         exitSignal = detectCross (js_at (EMA (EMA_EXIT_FAST cfg) closes) (- 2))
                         (js_at (EMA (EMA_EXIT_SLOW cfg) closes) (- 2))
                         (js_at (EMA (EMA_EXIT_FAST cfg) closes) (- 1))
                         (js_at (EMA (EMA_EXIT_SLOW cfg) closes) (- 1)),
         lastTickAt = Some (clock e)\<rparr>)
   \<and> (isTickRunning s \<or> response e = Inl err
        \<or> (response e = Inr closes
             \<and> length closes < max (EMA_ENTRY_SLOW cfg) (EMA_EXIT_SLOW cfg)) \<longrightarrow>
      cached (tick cfg EMA e s) = cached s)"
proof (intro conjI impI)
  assume a: "\<not> isTickRunning s \<and> response e = Inr closes
      \<and> max (EMA_ENTRY_SLOW cfg) (EMA_EXIT_SLOW cfg) \<le> length closes"
  then have g: "\<not> isTickRunning s" and r: "response e = Inr closes"
    and m: "max (EMA_ENTRY_SLOW cfg) (EMA_EXIT_SLOW cfg) \<le> length closes" by blast+
  have "cached (tick cfg EMA e s) = evaluate cfg EMA closes (clock e)"
    unfolding tick_unfold [OF g] by (rule resume_accepted(1) [OF r m])
  then show "cached (tick cfg EMA e s) =
        \<lparr>price = js_at closes (- 1),
         emaEntryFast = js_at (EMA (EMA_ENTRY_FAST cfg) closes) (- 1),
         emaEntrySlow = js_at (EMA (EMA_ENTRY_SLOW cfg) closes) (- 1),
         emaExitFast = js_at (EMA (EMA_EXIT_FAST cfg) closes) (- 1),
         emaExitSlow = js_at (EMA (EMA_EXIT_SLOW cfg) closes) (- 1),
         entrySignal = detectCross (js_at (EMA (EMA_ENTRY_FAST cfg) closes) (- 2))
                         (js_at (EMA (EMA_ENTRY_SLOW cfg) closes) (- 2))
                         (js_at (EMA (EMA_ENTRY_FAST cfg) closes) (- 1))
                         (js_at (EMA (EMA_ENTRY_SLOW cfg) closes) (- 1)),
         exitSignal = detectCross (js_at (EMA (EMA_EXIT_FAST cfg) closes) (- 2))
                         (js_at (EMA (EMA_EXIT_SLOW cfg) closes) (- 2))
                         (js_at (EMA (EMA_EXIT_FAST cfg) closes) (- 1))
                         (js_at (EMA (EMA_EXIT_SLOW cfg) closes) (- 1)),
         lastTickAt = Some (clock e)\<rparr>"
    by (simp add: evaluate_def Let_def)
next
  assume "isTickRunning s \<or> response e = Inl err
        \<or> (response e = Inr closes
             \<and> length closes < max (EMA_ENTRY_SLOW cfg) (EMA_EXIT_SLOW cfg))"
  then show "cached (tick cfg EMA e s) = cached s"
  proof (cases "isTickRunning s")
    case True
    then show ?thesis by (simp add: tick_held)
  next
    case False
    assume "isTickRunning s \<or> response e = Inl err
        \<or> (response e = Inr closes
             \<and> length closes < max (EMA_ENTRY_SLOW cfg) (EMA_EXIT_SLOW cfg))"
    with False consider "response e = Inl err"
      | "response e = Inr closes" "length closes < max (EMA_ENTRY_SLOW cfg) (EMA_EXIT_SLOW cfg)"
      by blast
    then show ?thesis
    proof cases
      case 1
      with False show ?thesis by (simp add: tick_fetch_failed)
    next
      case 2
      with False show ?thesis by (simp add: tick_short)
    qed
  qed
qed

theorem tick_refreshes_snapshot_witness:
  "cached (tick example_config EMA_calculate \<lparr>response = Inr minimal_closes, clock = 7\<rparr>
     initial_state) =
     \<lparr>price = Num 7, emaEntryFast = Num (37 / 6), emaEntrySlow = Num (16 / 3),
      emaExitFast = Num (37 / 6), emaExitSlow = Num (16 / 3),
      entrySignal = NONE, exitSignal = NONE, lastTickAt = Some 7\<rparr>
   \<and> cached (tick example_config EMA_calculate \<lparr>response = Inl FetchError, clock = 7\<rparr>
       initial_state) = initial_snapshot"
  using tick_refreshes_snapshot [of initial_state "\<lparr>response = Inr minimal_closes, clock = 7\<rparr>"
      minimal_closes example_config EMA_calculate FetchError]
    tick_refreshes_snapshot [of initial_state "\<lparr>response = Inl FetchError, clock = 7\<rparr>"
      minimal_closes example_config EMA_calculate FetchError]
  by (simp add: initial_state_def example_config_def minimal_closes_def
      EMA_calculate_def detectCross_def js_defs Let_def)

text \<open>Claim C4 as stated fails on a series that is too short: the invocation returns at
  line 202, before the snapshot is assigned, and the snapshot keeps its initial content.\<close>

theorem tick_refreshes_snapshot_counterexample:
  "cached (tick example_config EMA_calculate \<lparr>response = Inr short_closes, clock = 7\<rparr>
     initial_state) = initial_snapshot
   \<and> lastTickAt (cached (tick example_config EMA_calculate
         \<lparr>response = Inr short_closes, clock = 7\<rparr> initial_state)) = None"
  by (simp add: tick_def tick_enter_def tick_resume_def tick_try_def fetchCloses_def
      initial_state_def initial_snapshot_def example_config_def short_closes_def)

text \<open>
  Claim C3. On a tick that acquires the guard, fetches, and is given enough prices: with no
  position cached, an entry signal GOLDEN opens a LONG at the latest price, DEATH opens a
  SHORT, and NONE leaves cache and store as they were; with a position cached, a LONG on an
  exit signal DEATH and a SHORT on an exit signal GOLDEN are closed, and in every other
  combination cache and store stay as they were. With a position cached the outcome is the
  same for every entry signal.
\<close>

theorem tick_decision:
  assumes "\<not> isTickRunning s" and "response e = Inr closes"
    and "max (EMA_ENTRY_SLOW cfg) (EMA_EXIT_SLOW cfg) \<le> length closes"
    and "v = evaluate cfg EMA closes (clock e)"
    and "s' = tick cfg EMA e s"
  shows "(openPosition s = None \<and> entrySignal v = GOLDEN \<longrightarrow>
            (\<exists>p. openPosition s' = Some p \<and> positionType p = LONG \<and> status p = OPEN
                 \<and> entryPrice p = price v
                 \<and> positionsCol s' = (if DRY_RUN cfg then positionsCol s else positionsCol s @ [p])))
       \<and> (openPosition s = None \<and> entrySignal v = DEATH \<longrightarrow>
            (\<exists>p. openPosition s' = Some p \<and> positionType p = SHORT \<and> status p = OPEN
                 \<and> entryPrice p = price v
                 \<and> positionsCol s' = (if DRY_RUN cfg then positionsCol s else positionsCol s @ [p])))
       \<and> (openPosition s = None \<and> entrySignal v = NONE \<longrightarrow>
            openPosition s' = None \<and> positionsCol s' = positionsCol s)
       \<and> (\<forall>p. openPosition s = Some p
              \<and> (positionType p = LONG \<and> exitSignal v = DEATH
                   \<or> positionType p = SHORT \<and> exitSignal v = GOLDEN) \<longrightarrow>
            openPosition s' = None
            \<and> positionsCol s' =
                positionsCol (closeTrade cfg (clock e) (price v) (emaExitFast v) (emaExitSlow v) s))
       \<and> (\<forall>p. openPosition s = Some p
              \<and> \<not> (positionType p = LONG \<and> exitSignal v = DEATH)
              \<and> \<not> (positionType p = SHORT \<and> exitSignal v = GOLDEN) \<longrightarrow>
            openPosition s' = Some p \<and> positionsCol s' = positionsCol s)"
proof -
  note t = tick_trade [OF assms(1,2,3,4) refl]
  show ?thesis
    unfolding assms(5) t
    by (auto simp add: decide_def perform_def openTrade_def closeTrade_def insertOne_def Let_def
        split: prod.splits)
qed

text \<open>A golden cross with no position opens a LONG; a death cross on the exit pair
  closes a cached LONG.\<close>

theorem tick_decision_witness:
  "map positionType (positionsCol (tick example_config EMA_calculate
      \<lparr>response = Inr golden_closes, clock = 7\<rparr> initial_state)) = [LONG]
   \<and> openPosition (tick example_config EMA_calculate
      \<lparr>response = Inr death_closes, clock = 9\<rparr> (holding (example_long (Num 1)))) = None"
proof -
  let ?g = "\<lparr>response = Inr golden_closes, clock = 7\<rparr>"
  let ?d = "\<lparr>response = Inr death_closes, clock = 9\<rparr>"
  have dry: "DRY_RUN example_config = False"
    by (simp add: example_config_def)
  have g1: "\<not> isTickRunning initial_state" and g2: "openPosition initial_state = None"
    and g3: "positionsCol initial_state = []"
    by (simp_all add: initial_state_def)
  have g4: "max (EMA_ENTRY_SLOW example_config) (EMA_EXIT_SLOW example_config) \<le> length golden_closes"
    by (simp add: example_config_def golden_closes_def)
  have "map positionType (positionsCol (tick example_config EMA_calculate ?g initial_state)) = [LONG]"
    using tick_decision [where s = initial_state and e = ?g and closes = golden_closes
        and cfg = example_config and EMA = EMA_calculate, OF g1 _ g4 refl refl]
    by (auto simp add: evaluate_golden g2 g3 dry)
  moreover
  have d1: "\<not> isTickRunning (holding (example_long (Num 1)))"
    and d2: "openPosition (holding (example_long (Num 1))) = Some (example_long (Num 1))"
    by (simp_all add: holding_def initial_state_def)
  have d3: "positionType (example_long (Num 1)) = LONG"
    by (simp add: example_long_def)
  have d4: "max (EMA_ENTRY_SLOW example_config) (EMA_EXIT_SLOW example_config) \<le> length death_closes"
    by (simp add: example_config_def death_closes_def)
  have "openPosition (tick example_config EMA_calculate ?d (holding (example_long (Num 1)))) = None"
    using tick_decision [where s = "holding (example_long (Num 1))" and e = ?d
        and closes = death_closes and cfg = example_config and EMA = EMA_calculate,
        OF d1 _ d4 refl refl]
    by (simp add: evaluate_death d2 d3)
  ultimately show ?thesis by simp
qed

text \<open>
  Claim C10. Let the moving-average engine meet its contract. A price window whose length
  equals the slow period of a pair gives that pair a slow series of exactly one element, so
  its second-to-last element is absent, and \<open>detectCross\<close> with an absent previous slow
  value returns NONE: the signal of that pair is NONE. When the entry slow period is the
  largest period, a tick on a window of exactly that length caches the entry signal NONE
  and opens nothing: the store keeps its number of records, and the cache is either
  unchanged or emptied.
\<close>

theorem minimal_window_no_signal:
  assumes "EMA_contract EMA"
  shows "(length closes = slow \<longrightarrow>
            length (EMA slow closes) = 1
          \<and> js_at (EMA slow closes) (- 2) = Undefined
          \<and> detectCross (js_at (EMA fast closes) (- 2)) (js_at (EMA slow closes) (- 2))
               (js_at (EMA fast closes) (- 1)) (js_at (EMA slow closes) (- 1)) = NONE)
       \<and> (length closes = EMA_ENTRY_SLOW cfg \<longrightarrow>
            entrySignal (evaluate cfg EMA closes now) = NONE)
       \<and> (length closes = EMA_EXIT_SLOW cfg \<longrightarrow>
            exitSignal (evaluate cfg EMA closes now) = NONE)
       \<and> (\<not> isTickRunning s \<and> response e = Inr closes
            \<and> length closes = EMA_ENTRY_SLOW cfg \<and> EMA_EXIT_SLOW cfg \<le> EMA_ENTRY_SLOW cfg \<longrightarrow>
            entrySignal (cached (tick cfg EMA e s)) = NONE
          \<and> length (positionsCol (tick cfg EMA e s)) = length (positionsCol s)
          \<and> (openPosition (tick cfg EMA e s) = None
               \<or> openPosition (tick cfg EMA e s) = openPosition s))"
proof -
  have one: "length (EMA p xs) = 1" if "length xs = p" for p xs
    using assms that by (simp add: EMA_contract_def)
  have und: "js_at (EMA p xs) (- 2) = Undefined" if "length xs = p" for p xs
    using one [OF that] by (rule js_at_singleton)
  have sig: "detectCross (js_at (EMA f xs) (- 2)) (js_at (EMA p xs) (- 2))
               (js_at (EMA f xs) (- 1)) (js_at (EMA p xs) (- 1)) = NONE"
    if "length xs = p" for p f xs
    by (simp add: und [OF that] detectCross_no_prevSlow)
  have entry: "entrySignal (evaluate cfg EMA closes t) = NONE"
    if "length closes = EMA_ENTRY_SLOW cfg" for t
    using sig [OF that] by (simp add: evaluate_def Let_def)
  have exit: "exitSignal (evaluate cfg EMA closes t) = NONE"
    if "length closes = EMA_EXIT_SLOW cfg" for t
    using sig [OF that] by (simp add: evaluate_def Let_def)
  have tk: "entrySignal (cached (tick cfg EMA e s)) = NONE
          \<and> length (positionsCol (tick cfg EMA e s)) = length (positionsCol s)
          \<and> (openPosition (tick cfg EMA e s) = None
               \<or> openPosition (tick cfg EMA e s) = openPosition s)"
    if g: "\<not> isTickRunning s" and r: "response e = Inr closes"
      and l: "length closes = EMA_ENTRY_SLOW cfg"
      and m: "EMA_EXIT_SLOW cfg \<le> EMA_ENTRY_SLOW cfg"
  proof -
    let ?v = "evaluate cfg EMA closes (clock e)"
    let ?a = "decide (openPosition s) (entrySignal ?v) (exitSignal ?v)"
    have acc: "max (EMA_ENTRY_SLOW cfg) (EMA_EXIT_SLOW cfg) \<le> length closes"
      using l m by simp
    have d: "\<forall>pt. ?a \<noteq> CallOpenTrade pt"
      by (simp add: entry [OF l] decide_entry_NONE)
    have c: "cached (tick cfg EMA e s) = ?v"
      unfolding tick_unfold [OF g] by (rule resume_accepted(1) [OF r acc])
    note t = tick_trade [OF g r acc refl refl, of EMA]
    show ?thesis
      unfolding t c using perform_no_open [OF d, of cfg "clock e" ?v s]
      by (simp add: entry [OF l])
  qed
  show ?thesis
    using one und sig entry exit tk by blast
qed

text \<open>The engine modelled above meets the contract; on a window of three prices with
  slow period 3 nothing is opened.\<close>

theorem minimal_window_no_signal_witness:
  "length (EMA_calculate 3 minimal_closes) = 1
   \<and> entrySignal (evaluate example_config EMA_calculate minimal_closes 7) = NONE
   \<and> length (positionsCol (tick example_config EMA_calculate
        \<lparr>response = Inr minimal_closes, clock = 7\<rparr> initial_state)) = 0"
  using minimal_window_no_signal [OF EMA_calculate_contract, where closes = minimal_closes
      and slow = 3 and cfg = example_config and s = initial_state
      and e = "\<lparr>response = Inr minimal_closes, clock = 7\<rparr>" and now = 7]
  by (simp add: minimal_closes_def example_config_def initial_state_def)

section \<open>The non-reentrancy guard\<close>

text \<open>
  Claim C5. An invocation of \<open>tick\<close> that finds the guard held returns the state as it
  is: no write, no change of position or snapshot. An invocation that acquired the guard
  holds it while it is suspended and through the whole \<open>try\<close> block, and has released it
  when it ends, whatever the fetch returned, failure included. So when a second invocation
  arrives while the first is suspended on its fetch, with no position cached, persistent
  mode and a GOLDEN entry signal, the second changes nothing and the two together insert
  exactly one record.
\<close>

theorem tick_guard:
  "(isTickRunning s \<longrightarrow> tick cfg EMA e s = s)
   \<and> (tick_enter s = Some s1 \<longrightarrow>
         isTickRunning s1 \<and> isTickRunning (snd (tick_try cfg EMA e s1))
       \<and> \<not> isTickRunning (tick_resume cfg EMA e s1))
   \<and> (\<not> isTickRunning s \<longrightarrow> \<not> isTickRunning (tick cfg EMA e s))
   \<and> (tick_enter s = Some s1 \<and> openPosition s = None \<and> \<not> DRY_RUN cfg
        \<and> response e = Inr closes
        \<and> max (EMA_ENTRY_SLOW cfg) (EMA_EXIT_SLOW cfg) \<le> length closes
        \<and> entrySignal (evaluate cfg EMA closes (clock e)) = GOLDEN \<longrightarrow>
         tick cfg EMA e2 s1 = s1
       \<and> (\<exists>p. positionsCol (tick_resume cfg EMA e (tick cfg EMA e2 s1)) = positionsCol s @ [p]
              \<and> openPosition (tick_resume cfg EMA e (tick cfg EMA e2 s1)) = Some p))"
proof (intro conjI impI)
  assume "isTickRunning s"
  then show "tick cfg EMA e s = s" by (rule tick_held)
next
  assume "tick_enter s = Some s1"
  then show "isTickRunning s1" by (auto dest: enter_Some)
next
  assume "tick_enter s = Some s1"
  then show "isTickRunning (snd (tick_try cfg EMA e s1))"
    by (auto simp add: try_guard dest: enter_Some)
next
  show "\<not> isTickRunning (tick_resume cfg EMA e s1)" by (simp add: resume_guard)
next
  assume "\<not> isTickRunning s"
  then show "\<not> isTickRunning (tick cfg EMA e s)"
    by (simp add: tick_unfold resume_guard)
next
  assume a: "tick_enter s = Some s1 \<and> openPosition s = None \<and> \<not> DRY_RUN cfg
        \<and> response e = Inr closes
        \<and> max (EMA_ENTRY_SLOW cfg) (EMA_EXIT_SLOW cfg) \<le> length closes
        \<and> entrySignal (evaluate cfg EMA closes (clock e)) = GOLDEN"
  then have s1: "s1 = s\<lparr>isTickRunning := True\<rparr>" by (auto dest: enter_Some)
  then show "tick cfg EMA e2 s1 = s1" by (simp add: tick_held)
next
  assume a: "tick_enter s = Some s1 \<and> openPosition s = None \<and> \<not> DRY_RUN cfg
        \<and> response e = Inr closes
        \<and> max (EMA_ENTRY_SLOW cfg) (EMA_EXIT_SLOW cfg) \<le> length closes
        \<and> entrySignal (evaluate cfg EMA closes (clock e)) = GOLDEN"
  then have s1: "s1 = s\<lparr>isTickRunning := True\<rparr>" by (auto dest: enter_Some)
  have held: "tick cfg EMA e2 (s\<lparr>isTickRunning := True\<rparr>) = s\<lparr>isTickRunning := True\<rparr>"
    by (simp add: tick_held)
  from a have r: "response e = Inr closes"
    and m: "max (EMA_ENTRY_SLOW cfg) (EMA_EXIT_SLOW cfg) \<le> length closes" by blast+
  show "\<exists>p. positionsCol (tick_resume cfg EMA e (tick cfg EMA e2 s1)) = positionsCol s @ [p]
          \<and> openPosition (tick_resume cfg EMA e (tick cfg EMA e2 s1)) = Some p"
    unfolding s1 held
    using a resume_accepted(2,3) [OF r m, of EMA "s\<lparr>isTickRunning := True\<rparr>"]
    by (simp add: perform_frame decide_def perform_def openTrade_def insertOne_def Let_def)
qed

text \<open>Two overlapping invocations on the initial state, both given a golden cross: one
  record.\<close>

theorem tick_guard_witness:
  "tick_enter initial_state = Some (initial_state\<lparr>isTickRunning := True\<rparr>)
   \<and> tick example_config EMA_calculate \<lparr>response = Inr golden_closes, clock = 8\<rparr>
        (initial_state\<lparr>isTickRunning := True\<rparr>) = initial_state\<lparr>isTickRunning := True\<rparr>
   \<and> length (positionsCol (tick_resume example_config EMA_calculate
        \<lparr>response = Inr golden_closes, clock = 7\<rparr>
        (tick example_config EMA_calculate \<lparr>response = Inr golden_closes, clock = 8\<rparr>
           (initial_state\<lparr>isTickRunning := True\<rparr>)))) = 1"
proof -
  let ?e = "\<lparr>response = Inr golden_closes, clock = 7\<rparr>"
  let ?e2 = "\<lparr>response = Inr golden_closes, clock = 8\<rparr>"
  let ?s1 = "initial_state\<lparr>isTickRunning := True\<rparr>"
  have en: "tick_enter initial_state = Some ?s1"
    by (simp add: tick_enter_def initial_state_def)
  have hyp: "tick_enter initial_state = Some ?s1 \<and> openPosition initial_state = None
      \<and> \<not> DRY_RUN example_config \<and> response ?e = Inr golden_closes
      \<and> max (EMA_ENTRY_SLOW example_config) (EMA_EXIT_SLOW example_config) \<le> length golden_closes
      \<and> entrySignal (evaluate example_config EMA_calculate golden_closes (clock ?e)) = GOLDEN"
    using en by (simp add: evaluate_golden) (simp add: initial_state_def example_config_def golden_closes_def)
  have col: "positionsCol initial_state = []" by (simp add: initial_state_def)
  from tick_guard [where s = initial_state and ?s1.0 = ?s1 and cfg = example_config
      and EMA = EMA_calculate and e = ?e and ?e2.0 = ?e2 and closes = golden_closes] hyp
  have "tick example_config EMA_calculate ?e2 ?s1 = ?s1
      \<and> (\<exists>p. positionsCol (tick_resume example_config EMA_calculate ?e
                (tick example_config EMA_calculate ?e2 ?s1)) = positionsCol initial_state @ [p]
             \<and> openPosition (tick_resume example_config EMA_calculate ?e
                (tick example_config EMA_calculate ?e2 ?s1)) = Some p)"
    by blast
  then show ?thesis using en by (auto simp add: col)
qed

section \<open>The invariant\<close>

text \<open>
  Claim C1. Start from a store that holds at most one OPEN record for the instrument, with
  unique identifiers, and let startup reconciliation set the cache. After every sequence of
  invocations of \<open>tick\<close>, whatever each fetch returns, the store holds at most one OPEN
  record for the instrument. The tick never calls \<open>openTrade\<close> while a position is
  cached, and never calls \<open>closeTrade\<close> unless one is cached.
\<close>

theorem single_open_position:
  assumes "at_most_one_open cfg (positionsCol s)"
    and "distinct (map doc_id (positionsCol s))"
  shows "at_most_one_open cfg (positionsCol (ticks cfg EMA es (restoreOpenPosition cfg s)))
       \<and> (\<forall>p a b pt. decide (Some p) a b \<noteq> CallOpenTrade pt)
       \<and> (\<forall>a b. decide None a b \<noteq> CallCloseTrade)"
proof -
  let ?s = "restoreOpenPosition cfg s"
  have col: "positionsCol ?s = positionsCol s"
    by (simp add: restoreOpenPosition_def)
  have "at_most_one_open cfg (positionsCol (ticks cfg EMA es ?s))"
  proof (cases "DRY_RUN cfg")
    case True
    then show ?thesis using assms(1) by (simp add: ticks_dry col)
  next
    case False
    then have "openPosition ?s =
        find_latest (\<lambda>d. symbol d = SYMBOL cfg \<and> status d = OPEN) (positionsCol s)"
      by (simp add: restoreOpenPosition_def)
    with restore_agrees [OF assms(1,2)]
    have "cache_agrees cfg (openPosition ?s) (positionsCol ?s)" by (simp add: col)
    from ticks_agrees [OF False this] show ?thesis by (rule agrees_at_most_one)
  qed
  then show ?thesis by (simp add: decide_None decide_Some)
qed

text \<open>Two golden crosses and a death cross in a row, from a store that holds one OPEN
  record.\<close>

theorem single_open_position_witness:
  "at_most_one_open example_config
     (positionsCol (ticks example_config EMA_calculate
        [\<lparr>response = Inr golden_closes, clock = 7\<rparr>,
         \<lparr>response = Inr golden_closes, clock = 8\<rparr>,
         \<lparr>response = Inr death_closes, clock = 9\<rparr>]
        (restoreOpenPosition example_config (holding (example_long (Num 1))))))"
  using single_open_position [of example_config "holding (example_long (Num 1))" EMA_calculate
      "[\<lparr>response = Inr golden_closes, clock = 7\<rparr>,
        \<lparr>response = Inr golden_closes, clock = 8\<rparr>,
        \<lparr>response = Inr death_closes, clock = 9\<rparr>]"]
  by (simp add: holding_def initial_state_def at_most_one_open_def open_docs_def)

end
